theory Spec2Isabelle
  imports Complex_Main
begin

section \<open>Python values and exceptions\<close>

text \<open>
  The exceptions the modelled methods can raise. \<open>UserError\<close> stands for any exception
  raised inside a callable supplied by the caller (a component factory).
\<close>

datatype error =
    ZeroDivisionError
  | TypeError
  | KeyError string
  | AttributeError
  | UserError string

text \<open>
  The Python values that components, checkpoint entries and return values range over:
  \<open>None\<close>, integers, tuples, and opaque objects named by their identity.
\<close>

datatype pyval = PyNone | PyInt int | PyTuple "pyval list" | PyObj nat

section \<open>metric.py\<close>

subsection \<open>AverageMetric\<close>

text \<open>
  The instance attributes of \<open>AverageMetric\<close> (with \<open>compute_on_call\<close> from
  \<open>IMetric\<close>). Python floats are modelled as reals, so the arithmetic is exact; the
  not-a-number sentinel \<open>np.nan\<close> of \<open>mean\<close> and \<open>std\<close> is \<open>None\<close>. The counters
  \<open>n\<close> and \<open>num_samples\<close> are Python integers.
\<close>

record AverageMetric =
  self_compute_on_call :: bool
  self_n :: int
  self_value :: real
  self_mean :: "real option"
  self_mean_old :: real
  self_m_s :: real
  self_std :: "real option"
  self_num_samples :: int

definition AverageMetric_init :: "bool \<Rightarrow> AverageMetric" where
  "AverageMetric_init compute_on_call =
     \<lparr> self_compute_on_call = compute_on_call,
       self_n = 0,
       self_value = 0,
       self_mean = None,
       self_mean_old = 0,
       self_m_s = 0,
       self_std = None,
       self_num_samples = 0 \<rparr>"

definition AverageMetric_reset :: "AverageMetric \<Rightarrow> AverageMetric" where
  "AverageMetric_reset self =
     self\<lparr> self_n := 0,
           self_value := 0,
           self_mean := None,
           self_mean_old := 0,
           self_m_s := 0,
           self_std := None,
           self_num_samples := 0 \<rparr>"

text \<open>\<open>np.sqrt\<close> of a negative float is not-a-number (with a warning, no exception).\<close>

definition np_sqrt :: "real \<Rightarrow> real option" where
  "np_sqrt x = (if x < 0 then None else Some (sqrt x))"

text \<open>
  \<open>AverageMetric.update\<close>. The method mutates \<open>self\<close> statement by statement, so an
  exception leaves the attributes assigned before it: the result is the outcome together
  with the object as it then is. A float division by zero raises \<open>ZeroDivisionError\<close>.
\<close>

definition AverageMetric_update :: "real \<Rightarrow> int \<Rightarrow> AverageMetric \<Rightarrow> (error + unit) \<times> AverageMetric" where
  "AverageMetric_update val num_samples self0 =
     (let self1 = self0\<lparr> self_value := val \<rparr>;
          self2 = self1\<lparr> self_n := self_n self1 + 1 \<rparr>;
          self3 = self2\<lparr> self_num_samples := self_num_samples self2 + num_samples \<rparr>
      in if self_n self3 = 1 then
           (let self4 = self3\<lparr> self_mean := Some (0 + val) \<rparr>;
                self5 = self4\<lparr> self_std := Some 0 \<rparr>;
                self6 = self5\<lparr> self_mean_old := 0 + val \<rparr>;
                self7 = self6\<lparr> self_m_s := 0 \<rparr>
            in (Inr (), self7))
         else if real_of_int (self_num_samples self3) = 0 then (Inl ZeroDivisionError, self3)
         else
           (let mean = self_mean_old self3
                  + (val - self_mean_old self3) * real_of_int num_samples
                      / real_of_int (self_num_samples self3);
                self4 = self3\<lparr> self_mean := Some mean \<rparr>;
                self5 = self4\<lparr> self_m_s := self_m_s self4
                          + (val - self_mean_old self4) * (val - mean) * real_of_int num_samples \<rparr>;
                self6 = self5\<lparr> self_mean_old := mean \<rparr>
            in if real_of_int (self_num_samples self6) - 1 = 0 then (Inl ZeroDivisionError, self6)
               else (Inr (),
                     self6\<lparr> self_std :=
                       np_sqrt (self_m_s self6 / (real_of_int (self_num_samples self6) - 1)) \<rparr>)))"

definition AverageMetric_compute :: "AverageMetric \<Rightarrow> real option \<times> real option" where
  "AverageMetric_compute self = (self_mean self, self_std self)"

text \<open>
  A caller that feeds a sequence of \<open>(value, weight)\<close> pairs to \<open>update\<close> in order; the
  first exception ends the run, as it would propagate out of the caller's loop.
\<close>

fun update_all :: "(real \<times> int) list \<Rightarrow> AverageMetric \<Rightarrow> (error + unit) \<times> AverageMetric" where
  "update_all [] self = (Inr (), self)"
| "update_all ((val, num_samples) # rest) self =
     (case AverageMetric_update val num_samples self of
        (Inl e, self') \<Rightarrow> (Inl e, self')
      | (Inr _, self') \<Rightarrow> update_all rest self')"

text \<open>The direct formula \<open>sum(value_i * weight_i) / sum(weight_i)\<close>.\<close>

definition direct_weighted_average :: "(real \<times> int) list \<Rightarrow> real" where
  "direct_weighted_average xs =
     (\<Sum>(val, num_samples) \<leftarrow> xs. val * real_of_int num_samples)
       / real_of_int (\<Sum>(val, num_samples) \<leftarrow> xs. num_samples)"

subsection \<open>AccuracyMetric\<close>

text \<open>
  An element of \<open>targets\<close> is a number. An element of \<open>logits\<close> is either an object
  with a \<open>data\<close> attribute holding a number (a tensor), or a plain Python number, which
  has no such attribute: reading \<open>li.data\<close> on it raises \<open>AttributeError\<close>.
\<close>

datatype logit = Logit real | Number real

definition data :: "logit \<Rightarrow> error + real" where
  "data li = (case li of Logit d \<Rightarrow> Inr d | Number x \<Rightarrow> Inl AttributeError)"

text \<open>
  The list comprehension \<open>[(yi > 0) == (li.data > 0) for yi, li in zip(targets, logits)]\<close>,
  evaluated pair by pair; the first failing attribute read ends it.
\<close>

fun accuracy_list :: "(real \<times> logit) list \<Rightarrow> error + bool list" where
  "accuracy_list [] = Inr []"
| "accuracy_list ((yi, li) # rest) =
     (case data li of
        Inl e \<Rightarrow> Inl e
      | Inr d \<Rightarrow>
          (case accuracy_list rest of
             Inl e \<Rightarrow> Inl e
           | Inr acc \<Rightarrow> Inr (((yi > 0) = (d > 0)) # acc)))"

text \<open>
  \<open>AccuracyMetric.update\<close>: \<open>zip\<close> stops at the shorter sequence, \<open>sum\<close> counts the
  \<open>True\<close> entries, and \<open>/\<close> raises \<open>ZeroDivisionError\<close> when \<open>len(accuracy)\<close> is zero.
  Both exceptions occur before the aggregator is touched.
\<close>

definition AccuracyMetric_update ::
    "logit list \<Rightarrow> real list \<Rightarrow> AverageMetric \<Rightarrow> (error + unit) \<times> AverageMetric" where
  "AccuracyMetric_update logits targets self =
     (case accuracy_list (zip targets logits) of
        Inl e \<Rightarrow> (Inl e, self)
      | Inr accuracy \<Rightarrow>
          if length accuracy = 0 then (Inl ZeroDivisionError, self)
          else
            (let val = real (sum_list (map of_bool accuracy)) / real (length accuracy)
             in AverageMetric_update val (int (length accuracy)) self))"

text \<open>
  The fraction of positions at which \<open>prediction > 0\<close> agrees with \<open>target > 0\<close>, written
  over the positions of two number sequences of equal length.
\<close>

definition agreement_fraction :: "real list \<Rightarrow> real list \<Rightarrow> real" where
  "agreement_fraction predictions targets =
     real (length (filter (\<lambda>i. (predictions ! i > 0) = (targets ! i > 0))
                     [0..<length predictions]))
       / real (length predictions)"

section \<open>engine.py\<close>

subsection \<open>Checkpoints and the reference engine's state\<close>

text \<open>
  A checkpoint is a \<open>Dict\<close> from string keys to values, kept as an association list in
  insertion order with distinct keys. \<open>d[k]\<close> raises \<open>KeyError\<close> on a missing key.
\<close>

type_synonym checkpoint = "(string \<times> pyval) list"

definition getitem :: "checkpoint \<Rightarrow> string \<Rightarrow> error + pyval" where
  "getitem d k = (case map_of d k of None \<Rightarrow> Inl (KeyError k) | Some v \<Rightarrow> Inr v)"

text \<open>
  \<open>Engine\<close> defines no constructor: the attribute \<open>_checkpoint_dump\<close> does not exist
  until \<open>save_checkpoint\<close> assigns it (\<open>None\<close> here), and reading it before that raises
  \<open>AttributeError\<close>. \<open>stdout\<close> collects the lines the methods print.
\<close>

record Engine =
  checkpoint_dump :: "checkpoint option"
  stdout :: "string list"

definition Engine_init :: Engine where
  "Engine_init = \<lparr> checkpoint_dump = None, stdout = [] \<rparr>"

text \<open>\<open>print(a, b)\<close> writes its arguments separated by one space.\<close>

definition print2 :: "string \<Rightarrow> string \<Rightarrow> Engine \<Rightarrow> Engine" where
  "print2 a b self = self\<lparr> stdout := stdout self @ [a @ '' '' @ b] \<rparr>"

definition save_checkpoint :: "checkpoint \<Rightarrow> string \<Rightarrow> Engine \<Rightarrow> Engine" where
  "save_checkpoint checkpoint path self =
     (let self1 = print2 ''checkpoint saved at '' path self
      in self1\<lparr> checkpoint_dump := Some checkpoint \<rparr>)"

definition load_checkpoint :: "string \<Rightarrow> Engine \<Rightarrow> (error + checkpoint) \<times> Engine" where
  "load_checkpoint path self =
     (let self1 = print2 ''checkpoint loaded from '' path self
      in case checkpoint_dump self1 of
           None \<Rightarrow> (Inl AttributeError, self1)
         | Some checkpoint \<Rightarrow> (Inr checkpoint, self1))"

text \<open>A caller that saves a sequence of \<open>(checkpoint, path)\<close> pairs in order.\<close>

fun save_all :: "(checkpoint \<times> string) list \<Rightarrow> Engine \<Rightarrow> Engine" where
  "save_all [] self = self"
| "save_all ((checkpoint, path) # rest) self = save_all rest (save_checkpoint checkpoint path self)"

text \<open>
  \<open>pack_checkpoint\<close>: a keyword argument named like one of the four parameters never
  reaches \<open>kwargs\<close>, since Python rejects such a call with \<open>TypeError\<close>. Otherwise the
  dict display lists the four fixed keys and then the entries of \<open>kwargs\<close>.
\<close>

definition pack_checkpoint ::
    "pyval \<Rightarrow> pyval \<Rightarrow> pyval \<Rightarrow> pyval \<Rightarrow> checkpoint \<Rightarrow> error + checkpoint" where
  "pack_checkpoint model criterion optimizer scheduler kwargs =
     (if filter (\<lambda>(k, v). k \<in> set [''model'', ''criterion'', ''optimizer'', ''scheduler''])
           kwargs \<noteq> []
      then Inl TypeError
      else Inr ([(''model'', model), (''criterion'', criterion),
                 (''optimizer'', optimizer), (''scheduler'', scheduler)] @ kwargs))"

subsection \<open>unpack_checkpoint\<close>

text \<open>
  The four parameters of \<open>unpack_checkpoint\<close> are names local to the call. The body
  rebinds each of them to an entry of the checkpoint; the bindings end with the call.
\<close>

record frame =
  v_model :: pyval
  v_criterion :: pyval
  v_optimizer :: pyval
  v_scheduler :: pyval

definition unpack_checkpoint_body :: "checkpoint \<Rightarrow> frame \<Rightarrow> error + frame" where
  "unpack_checkpoint_body checkpoint locals0 =
     (case getitem checkpoint ''model'' of Inl e \<Rightarrow> Inl e | Inr x1 \<Rightarrow>
      (let locals1 = locals0\<lparr> v_model := x1 \<rparr> in
       case getitem checkpoint ''criterion'' of Inl e \<Rightarrow> Inl e | Inr x2 \<Rightarrow>
       (let locals2 = locals1\<lparr> v_criterion := x2 \<rparr> in
        case getitem checkpoint ''optimizer'' of Inl e \<Rightarrow> Inl e | Inr x3 \<Rightarrow>
        (let locals3 = locals2\<lparr> v_optimizer := x3 \<rparr> in
         case getitem checkpoint ''scheduler'' of Inl e \<Rightarrow> Inl e | Inr x4 \<Rightarrow>
           Inr (locals3\<lparr> v_scheduler := x4 \<rparr>)))))"

text \<open>
  The method as its caller sees it: the outcome (\<open>None\<close> when the body runs to its end)
  and the engine, which the body never assigns.
\<close>

definition unpack_checkpoint ::
    "checkpoint \<Rightarrow> pyval \<Rightarrow> pyval \<Rightarrow> pyval \<Rightarrow> pyval \<Rightarrow> checkpoint \<Rightarrow> Engine
       \<Rightarrow> (error + pyval) \<times> Engine" where
  "unpack_checkpoint checkpoint model criterion optimizer scheduler kwargs self =
     (case unpack_checkpoint_body checkpoint
             \<lparr> v_model = model, v_criterion = criterion,
               v_optimizer = optimizer, v_scheduler = scheduler \<rparr> of
        Inl e \<Rightarrow> (Inl e, self)
      | Inr locals \<Rightarrow> (Inr PyNone, self))"

text \<open>
  A call site \<open>engine.unpack_checkpoint(checkpoint, model, criterion, optimizer,
  scheduler)\<close> in a caller whose own variables are the frame \<open>caller\<close>: Python passes the
  objects the caller's variables are bound to, and a callee cannot rebind its caller's
  variables. The result carries the caller's frame after the call.
\<close>

definition call_unpack_checkpoint ::
    "checkpoint \<Rightarrow> frame \<Rightarrow> Engine \<Rightarrow> (error + pyval) \<times> frame \<times> Engine" where
  "call_unpack_checkpoint checkpoint caller self =
     (case unpack_checkpoint checkpoint (v_model caller) (v_criterion caller)
             (v_optimizer caller) (v_scheduler caller) [] self of
        (r, self') \<Rightarrow> (r, caller, self'))"

subsection \<open>init_components\<close>

text \<open>
  A factory is a callable that may have effects and may raise: it maps the state of the
  world to an outcome and the next state. A factory argument left at its default is
  \<open>None\<close>, and calling \<open>None\<close> raises \<open>TypeError\<close>.
\<close>

type_synonym 'w factory0 = "'w \<Rightarrow> (error + pyval) \<times> 'w"
type_synonym 'w factory1 = "pyval \<Rightarrow> 'w \<Rightarrow> (error + pyval) \<times> 'w"

definition call0 :: "'w factory0 option \<Rightarrow> 'w \<Rightarrow> (error + pyval) \<times> 'w" where
  "call0 f w = (case f of None \<Rightarrow> (Inl TypeError, w) | Some g \<Rightarrow> g w)"

definition call1 :: "'w factory1 option \<Rightarrow> pyval \<Rightarrow> 'w \<Rightarrow> (error + pyval) \<times> 'w" where
  "call1 f x w = (case f of None \<Rightarrow> (Inl TypeError, w) | Some g \<Rightarrow> g x w)"

definition init_components ::
    "'w factory0 option \<Rightarrow> 'w factory0 option \<Rightarrow> 'w factory1 option \<Rightarrow> 'w factory1 option
       \<Rightarrow> 'w \<Rightarrow> (error + pyval \<times> pyval \<times> pyval \<times> pyval) \<times> 'w" where
  "init_components model_fn criterion_fn optimizer_fn scheduler_fn w0 =
     (case call0 model_fn w0 of (Inl e, w1) \<Rightarrow> (Inl e, w1) | (Inr model, w1) \<Rightarrow>
      (case call0 criterion_fn w1 of (Inl e, w2) \<Rightarrow> (Inl e, w2) | (Inr criterion, w2) \<Rightarrow>
       (case call1 optimizer_fn model w2 of (Inl e, w3) \<Rightarrow> (Inl e, w3) | (Inr optimizer, w3) \<Rightarrow>
        (case call1 scheduler_fn optimizer w3 of (Inl e, w4) \<Rightarrow> (Inl e, w4) | (Inr scheduler, w4) \<Rightarrow>
           (Inr (model, criterion, optimizer, scheduler), w4)))))"

text \<open>
  To observe which factories are invoked, in which order and with which argument, a
  factory is wrapped so that each invocation is appended to a log kept beside the world.
\<close>

datatype call =
    Call_model_fn
  | Call_criterion_fn
  | Call_optimizer_fn pyval
  | Call_scheduler_fn pyval

definition recorded0 :: "call \<Rightarrow> 'w factory0 \<Rightarrow> ('w \<times> call list) factory0" where
  "recorded0 c f = (\<lambda>(w, calls). case f w of (r, w') \<Rightarrow> (r, (w', calls @ [c])))"

definition recorded1 :: "(pyval \<Rightarrow> call) \<Rightarrow> 'w factory1 \<Rightarrow> ('w \<times> call list) factory1" where
  "recorded1 c f = (\<lambda>x (w, calls). case f x w of (r, w') \<Rightarrow> (r, (w', calls @ [c x])))"

text \<open>
  Factories without effects, for concrete runs: \<open>returns v\<close> returns \<open>v\<close> (and, read as a
  one-argument factory, \<open>returns\<close> returns its argument); \<open>pair_with lr\<close> returns the
  tuple of its argument and \<open>lr\<close>.
\<close>

definition returns :: "pyval \<Rightarrow> 'w \<Rightarrow> (error + pyval) \<times> 'w" where
  "returns v w = (Inr v, w)"

definition pair_with :: "pyval \<Rightarrow> pyval \<Rightarrow> 'w \<Rightarrow> (error + pyval) \<times> 'w" where
  "pair_with lr model w = (Inr (PyTuple [model, lr]), w)"

section \<open>Properties\<close>

subsection \<open>The running mean\<close>

lemma update_running:
  assumes "1 \<le> self_n s" "0 < self_num_samples s" "0 < w"
  shows "\<exists>s'. AverageMetric_update v w s = (Inr (), s')
     \<and> self_n s' = self_n s + 1
     \<and> self_num_samples s' = self_num_samples s + w
     \<and> self_mean s' = Some (self_mean_old s')
     \<and> self_mean_old s' * real_of_int (self_num_samples s')
         = self_mean_old s * real_of_int (self_num_samples s) + v * real_of_int w"
proof -
  let ?N = "self_num_samples s + w"
  have N: "real_of_int ?N \<noteq> 0" "real_of_int ?N - 1 \<noteq> 0" "self_n s + 1 \<noteq> 1"
    using assms by auto
  have eq: "(self_mean_old s + (v - self_mean_old s) * real_of_int w / real_of_int ?N) * real_of_int ?N
      = self_mean_old s * real_of_int (self_num_samples s) + v * real_of_int w"
    using N(1) by (simp add: field_simps)
  show ?thesis
    using N eq by (simp add: AverageMetric_update_def Let_def)
qed

lemma update_start:
  assumes "self_n s = 0" "self_num_samples s = 0"
  shows "\<exists>s'. AverageMetric_update v w s = (Inr (), s')
     \<and> self_n s' = 1
     \<and> self_num_samples s' = w
     \<and> self_mean s' = Some (self_mean_old s')
     \<and> self_mean_old s' = v"
  using assms by (simp add: AverageMetric_update_def Let_def)

lemma update_all_running:
  assumes "1 \<le> self_n s" "0 < self_num_samples s" "self_mean s = Some (self_mean_old s)"
    and "\<forall>(v, w) \<in> set xs. 0 < w"
  shows "\<exists>s'. update_all xs s = (Inr (), s')
     \<and> self_num_samples s' = self_num_samples s + (\<Sum>(v, w) \<leftarrow> xs. w)
     \<and> self_mean s' = Some (self_mean_old s')
     \<and> self_mean_old s' * real_of_int (self_num_samples s')
         = self_mean_old s * real_of_int (self_num_samples s)
           + (\<Sum>(v, w) \<leftarrow> xs. v * real_of_int w)"
  using assms
proof (induction xs arbitrary: s)
  case Nil
  then show ?case by simp
next
  case (Cons x xs)
  obtain v w where x: "x = (v, w)" by (cases x)
  have w: "0 < w" using Cons.prems(4) x by simp
  obtain s1 where s1: "AverageMetric_update v w s = (Inr (), s1)"
      "self_n s1 = self_n s + 1" "self_num_samples s1 = self_num_samples s + w"
      "self_mean s1 = Some (self_mean_old s1)"
      "self_mean_old s1 * real_of_int (self_num_samples s1)
         = self_mean_old s * real_of_int (self_num_samples s) + v * real_of_int w"
    using update_running [OF Cons.prems(1,2) w, of v] by blast
  have "1 \<le> self_n s1" "0 < self_num_samples s1"
    using s1(2,3) Cons.prems(1,2) w by simp_all
  moreover have "\<forall>(v, w) \<in> set xs. 0 < w" using Cons.prems(4) by simp
  ultimately obtain s' where s': "update_all xs s1 = (Inr (), s')"
      "self_num_samples s' = self_num_samples s1 + (\<Sum>(v, w) \<leftarrow> xs. w)"
      "self_mean s' = Some (self_mean_old s')"
      "self_mean_old s' * real_of_int (self_num_samples s')
         = self_mean_old s1 * real_of_int (self_num_samples s1)
           + (\<Sum>(v, w) \<leftarrow> xs. v * real_of_int w)"
    using Cons.IH [OF _ _ s1(4)] by blast
  show ?case
    using s1 s' by (simp add: x)
qed

lemma update_all_from_start:
  assumes "self_n s = 0" "self_num_samples s = 0" "xs \<noteq> []" "\<forall>(v, w) \<in> set xs. 0 < w"
  shows "\<exists>s'. update_all xs s = (Inr (), s')
     \<and> self_num_samples s' = (\<Sum>(v, w) \<leftarrow> xs. w)
     \<and> self_mean s' = Some (direct_weighted_average xs)"
proof -
  obtain v w rest where xs: "xs = (v, w) # rest"
    using assms(3) by (cases xs) auto
  have w: "0 < w" and rest: "\<forall>(v, w) \<in> set rest. 0 < w"
    using assms(4) xs by simp_all
  obtain s1 where s1: "AverageMetric_update v w s = (Inr (), s1)" "self_n s1 = 1"
      "self_num_samples s1 = w" "self_mean s1 = Some (self_mean_old s1)" "self_mean_old s1 = v"
    using update_start [OF assms(1,2), of v w] by blast
  have "1 \<le> self_n s1" "0 < self_num_samples s1" using s1 w by simp_all
  then obtain s' where s': "update_all rest s1 = (Inr (), s')"
      "self_num_samples s' = self_num_samples s1 + (\<Sum>(v, w) \<leftarrow> rest. w)"
      "self_mean s' = Some (self_mean_old s')"
      "self_mean_old s' * real_of_int (self_num_samples s')
         = self_mean_old s1 * real_of_int (self_num_samples s1)
           + (\<Sum>(v, w) \<leftarrow> rest. v * real_of_int w)"
    using update_all_running [OF _ _ s1(4) rest] by blast
  have pos: "0 \<le> (\<Sum>(v, w) \<leftarrow> rest. w)"
    using rest by (induction rest) auto
  have tot: "self_num_samples s' = (\<Sum>(v, w) \<leftarrow> xs. w)"
    using s'(2) s1(3) by (simp add: xs)
  have nz: "real_of_int (self_num_samples s') \<noteq> 0"
    using s'(2) s1(3) w pos by simp
  have "self_mean_old s' * real_of_int (self_num_samples s')
      = (\<Sum>(v, w) \<leftarrow> xs. v * real_of_int w)"
    using s'(4) s1(3,5) by (simp add: xs)
  then have "self_mean_old s' = direct_weighted_average xs"
    using nz unfolding direct_weighted_average_def tot [symmetric]
    by (simp add: field_simps)
  then show ?thesis
    using s1(1) s'(1,3) tot by (simp add: xs)
qed

text \<open>
  C1. Starting from a freshly constructed or freshly reset \<open>AverageMetric\<close>, feeding any
  non-empty sequence of \<open>(value, weight)\<close> pairs with positive weights to \<open>update\<close>, in
  order, returns normally each time and leaves \<open>mean\<close> equal to the direct weighted
  average \<open>sum(value_i * weight_i) / sum(weight_i)\<close>, with \<open>num_samples\<close> the sum of the
  weights. In particular two updates \<open>(a, w)\<close>, \<open>(b, w)\<close> leave \<open>mean = (a + b) / 2\<close> and
  \<open>num_samples = 2 * w\<close>. The arithmetic is exact (reals for floats).
\<close>

theorem running_mean_is_weighted_average:
  assumes "xs \<noteq> []" and "\<forall>(v, w) \<in> set xs. 0 < w"
    and "s0 = AverageMetric_init c \<or> s0 = AverageMetric_reset self"
  shows "\<exists>s. update_all xs s0 = (Inr (), s)
           \<and> self_mean s = Some (direct_weighted_average xs)
           \<and> self_num_samples s = (\<Sum>(v, w) \<leftarrow> xs. w)
           \<and> (\<forall>a b w. xs = [(a, w), (b, w)] \<longrightarrow>
                 self_mean s = Some ((a + b) / 2) \<and> self_num_samples s = 2 * w)"
proof -
  have start: "self_n s0 = 0" "self_num_samples s0 = 0"
    using assms(3) by (auto simp: AverageMetric_init_def AverageMetric_reset_def)
  obtain s where s: "update_all xs s0 = (Inr (), s)"
      "self_num_samples s = (\<Sum>(v, w) \<leftarrow> xs. w)"
      "self_mean s = Some (direct_weighted_average xs)"
    using update_all_from_start [OF start assms(1,2)] by blast
  have "self_mean s = Some ((a + b) / 2) \<and> self_num_samples s = 2 * w"
    if "xs = [(a, w), (b, w)]" for a b w
  proof -
    have "0 < w" using assms(2) that by simp
    then have "direct_weighted_average xs = (a + b) / 2"
      by (simp add: that direct_weighted_average_def field_simps)
    then show ?thesis using s(2,3) by (simp add: that)
  qed
  then show ?thesis using s by blast
qed

theorem running_mean_is_weighted_average_witness:
  "fst (update_all [(1, 3), (5, 3)] (AverageMetric_init True)) = Inr ()
   \<and> self_mean (snd (update_all [(1, 3), (5, 3)] (AverageMetric_init True))) = Some 3
   \<and> self_num_samples (snd (update_all [(1, 3), (5, 3)] (AverageMetric_init True))) = 6"
  using running_mean_is_weighted_average [of "[(1, 3), (5, 3)]" "AverageMetric_init True" True]
  by auto

text \<open>
  C2. A single call \<open>update(v, w)\<close> on a freshly constructed or freshly reset
  \<open>AverageMetric\<close> returns normally and leaves \<open>mean = v\<close>, \<open>std = 0\<close> and
  \<open>num_samples = w\<close>, for every value \<open>v\<close> and every weight \<open>w\<close>.
\<close>

theorem AverageMetric_update_first:
  "(\<exists>s. AverageMetric_update v w (AverageMetric_init c) = (Inr (), s)
        \<and> self_mean s = Some v \<and> self_std s = Some 0 \<and> self_num_samples s = w)
   \<and> (\<exists>s. AverageMetric_update v w (AverageMetric_reset self) = (Inr (), s)
        \<and> self_mean s = Some v \<and> self_std s = Some 0 \<and> self_num_samples s = w)"
  by (simp add: AverageMetric_update_def AverageMetric_init_def AverageMetric_reset_def Let_def)

subsection \<open>The accuracy metric\<close>

lemma sum_list_of_bool: "sum_list (map of_bool (map P xs)) = length (filter P xs)"
  by (induction xs) auto

lemma zip_take_indices:
  "zip ys xs = map (\<lambda>i. (ys ! i, xs ! i)) [0..<min (length xs) (length ys)]"
  by (rule nth_equalityI) auto

lemma accuracy_list_data:
  "accuracy_list (zip targets (map Logit ds))
     = Inr (map (\<lambda>(yi, d). (yi > 0) = (d > 0)) (zip targets ds))"
proof (induction targets arbitrary: ds)
  case Nil
  then show ?case by simp
next
  case (Cons t targets)
  then show ?case by (cases ds) (simp_all add: data_def)
qed

lemma count_agreements:
  fixes targets ds :: "real list"
  shows "sum_list (map of_bool (map (\<lambda>(yi, d). (yi > 0) = (d > 0)) (zip targets ds)))
     = length (filter (\<lambda>i. (ds ! i > 0) = (targets ! i > 0))
                 [0..<min (length ds) (length targets)])"
proof -
  have "filter (\<lambda>(yi, d). (yi > 0) = (d > (0 :: real))) (zip targets ds)
      = map (\<lambda>i. (targets ! i, ds ! i))
          (filter (\<lambda>i. (ds ! i > 0) = (targets ! i > (0 :: real)))
             [0..<min (length ds) (length targets)])"
  proof -
    have "filter ((\<lambda>(yi, d). (yi > 0) = (d > 0)) \<circ> (\<lambda>i. (targets ! i, ds ! i)))
            [0..<min (length ds) (length targets)]
        = filter (\<lambda>i. (ds ! i > 0) = (targets ! i > 0))
            [0..<min (length ds) (length targets)]"
      by (rule filter_cong) auto
    then show ?thesis
      by (subst zip_take_indices) (simp only: filter_map)
  qed
  then show ?thesis
    by (simp only: sum_list_of_bool length_map)
qed

lemma AccuracyMetric_update_data:
  "AccuracyMetric_update (map Logit ds) targets self =
     (let m = min (length ds) (length targets)
      in if m = 0 then (Inl ZeroDivisionError, self)
         else AverageMetric_update
                (agreement_fraction (take m ds) (take m targets)) (int m) self)"
proof -
  let ?m = "min (length ds) (length targets)"
  let ?acc = "map (\<lambda>(yi, d). (yi > 0) = (d > (0 :: real))) (zip targets ds)"
  have "filter (\<lambda>i. (take ?m ds ! i > 0) = (take ?m targets ! i > 0)) [0..<?m]
      = filter (\<lambda>i. (ds ! i > 0) = (targets ! i > 0)) [0..<?m]"
    by (rule filter_cong) auto
  then have "agreement_fraction (take ?m ds) (take ?m targets)
      = real (length (filter (\<lambda>i. (ds ! i > 0) = (targets ! i > 0)) [0..<?m])) / real ?m"
    by (simp add: agreement_fraction_def)
  then have val: "real (sum_list (map of_bool ?acc)) / real ?m
      = agreement_fraction (take ?m ds) (take ?m targets)"
    by (simp only: count_agreements)
  have len: "length ?acc = ?m"
    by (simp add: min.commute)
  show ?thesis
    unfolding AccuracyMetric_update_def accuracy_list_data sum.case Let_def len val
    by (rule refl)
qed

lemma AccuracyMetric_update_take:
  "AccuracyMetric_update logits targets self
     = AccuracyMetric_update (take (min (length logits) (length targets)) logits)
         (take (min (length logits) (length targets)) targets) self"
proof -
  let ?m = "min (length logits) (length targets)"
  have "zip targets logits = take ?m (zip targets logits)"
    by (simp add: min.commute)
  also have "\<dots> = zip (take ?m targets) (take ?m logits)"
    by (rule take_zip)
  finally show ?thesis
    by (simp only: AccuracyMetric_update_def)
qed

lemma AverageMetric_update_after_reset:
  "AverageMetric_update v w (AverageMetric_reset self) =
     (Inr (), (AverageMetric_reset self)
        \<lparr> self_value := v, self_n := 1, self_num_samples := w, self_mean := Some v,
          self_std := Some 0, self_mean_old := v, self_m_s := 0 \<rparr>)"
  by (simp add: AverageMetric_update_def AverageMetric_reset_def Let_def)

text \<open>
  C8, as the code has it. For equal-length non-empty sequences in which every element
  of \<open>logits\<close> is an object whose \<open>data\<close> attribute holds a number (the numbers
  \<open>predictions\<close>), \<open>AccuracyMetric.update(logits, targets)\<close> forwards to the aggregator's
  \<open>update\<close> the fraction of positions where \<open>prediction > 0\<close> agrees with \<open>target > 0\<close>,
  weighted by the sequence length. As the first update after a reset it returns normally
  and leaves \<open>value\<close> and \<open>mean\<close> equal to that fraction and \<open>num_samples\<close> equal to the
  length.
\<close>

theorem AccuracyMetric_update_agreement:
  assumes "length logits = length targets" and "logits \<noteq> []"
    and "logits = map Logit predictions"
  shows "AccuracyMetric_update logits targets self
           = AverageMetric_update (agreement_fraction predictions targets)
               (int (length logits)) self
       \<and> (\<exists>s. AccuracyMetric_update logits targets (AverageMetric_reset self) = (Inr (), s)
              \<and> self_value s = agreement_fraction predictions targets
              \<and> self_mean s = Some (agreement_fraction predictions targets)
              \<and> self_num_samples s = int (length logits))"
proof -
  have len: "length predictions = length targets" "length targets \<noteq> 0"
    using assms by auto
  have eq: "AccuracyMetric_update logits targets s
      = AverageMetric_update (agreement_fraction predictions targets) (int (length logits)) s"
    for s
    unfolding assms(3) AccuracyMetric_update_data Let_def using len by simp
  show ?thesis
    by (simp add: eq AverageMetric_update_after_reset)
qed

text \<open>
  With logits whose \<open>data\<close> are 1, -1, 1 and targets \<open>[1, 1, -1]\<close> the batch value is
  \<open>1/3\<close>, and so is the mean when this is the first update after a reset.
\<close>

theorem AccuracyMetric_update_agreement_witness:
  "agreement_fraction [1, - 1, 1] [1, 1, - 1] = 1 / 3
   \<and> fst (AccuracyMetric_update [Logit 1, Logit (- 1), Logit 1] [1, 1, - 1]
            (AverageMetric_reset (AverageMetric_init True))) = Inr ()
   \<and> self_value (snd (AccuracyMetric_update [Logit 1, Logit (- 1), Logit 1] [1, 1, - 1]
            (AverageMetric_reset (AverageMetric_init True)))) = 1 / 3
   \<and> self_mean (snd (AccuracyMetric_update [Logit 1, Logit (- 1), Logit 1] [1, 1, - 1]
            (AverageMetric_reset (AverageMetric_init True)))) = Some (1 / 3)
   \<and> self_num_samples (snd (AccuracyMetric_update [Logit 1, Logit (- 1), Logit 1] [1, 1, - 1]
            (AverageMetric_reset (AverageMetric_init True)))) = 3"
proof -
  have f: "agreement_fraction [1, - 1, 1] [1, 1, - 1] = 1 / 3"
    by (simp add: agreement_fraction_def upt_rec)
  have h1: "length [Logit 1, Logit (- 1), Logit 1] = length [1, 1, - 1 :: real]"
    and h2: "[Logit 1, Logit (- 1), Logit 1] \<noteq> []"
    and h3: "[Logit 1, Logit (- 1), Logit 1] = map Logit [1, - 1, 1]"
    by simp_all
  obtain s where s:
      "AccuracyMetric_update [Logit 1, Logit (- 1), Logit 1] [1, 1, - 1]
         (AverageMetric_reset (AverageMetric_init True)) = (Inr (), s)"
      "self_value s = agreement_fraction [1, - 1, 1] [1, 1, - 1]"
      "self_mean s = Some (agreement_fraction [1, - 1, 1] [1, 1, - 1])"
      "self_num_samples s = int (length [Logit 1, Logit (- 1), Logit 1])"
    using AccuracyMetric_update_agreement [OF h1 h2 h3, of "AverageMetric_init True"]
    by blast
  show ?thesis
    unfolding s(1) fst_conv snd_conv s(2,3,4) f by simp
qed

text \<open>
  C8, as the claim states it, fails at its own example: on the plain numbers
  \<open>[1, -1, 1]\<close> as logits the read of \<open>li.data\<close> raises \<open>AttributeError\<close>, no batch value
  is computed and the metric stays as it was after the reset.
\<close>

theorem AccuracyMetric_update_plain_numbers_counterexample:
  "length [Number 1, Number (- 1), Number 1] = length [1, 1, - 1 :: real]
   \<and> AccuracyMetric_update [Number 1, Number (- 1), Number 1] [1, 1, - 1]
        (AverageMetric_reset (AverageMetric_init True))
       = (Inl AttributeError, AverageMetric_reset (AverageMetric_init True))"
  by (simp add: AccuracyMetric_update_def data_def)

text \<open>
  C7, as the code has it. Sequences of differing lengths raise no length-mismatch error:
  \<open>zip\<close> stops at the shorter one. When neither is empty and the logits at the compared
  positions are objects whose \<open>data\<close> are the numbers \<open>predictions\<close>, the call on a freshly
  reset metric returns normally, with the batch value the agreement fraction over the
  first \<open>min(len(logits), len(targets))\<close> positions and that minimum as the weight.
\<close>

theorem AccuracyMetric_update_truncates:
  assumes "length logits \<noteq> length targets" and "logits \<noteq> []" and "targets \<noteq> []"
    and "take (min (length logits) (length targets)) logits = map Logit predictions"
  shows "\<exists>s. AccuracyMetric_update logits targets (AverageMetric_reset self) = (Inr (), s)
           \<and> self_value s = agreement_fraction predictions
                               (take (min (length logits) (length targets)) targets)
           \<and> self_num_samples s = int (min (length logits) (length targets))"
proof -
  let ?m = "min (length logits) (length targets)"
  have m: "?m \<noteq> 0"
    using assms(2,3) by simp
  have "length (take ?m logits) = ?m"
    by simp
  then have len: "length predictions = ?m"
    unfolding assms(4) by simp
  have "AccuracyMetric_update logits targets s
      = AverageMetric_update (agreement_fraction predictions (take ?m targets)) (int ?m) s"
    for s
  proof -
    have "AccuracyMetric_update logits targets s
        = AccuracyMetric_update (map Logit predictions) (take ?m targets) s"
      by (subst AccuracyMetric_update_take) (simp only: assms(4))
    also have "\<dots> = AverageMetric_update
        (agreement_fraction predictions (take ?m targets)) (int ?m) s"
    proof -
      have k: "min (length predictions) (length (take ?m targets)) = ?m"
        unfolding len by simp
      have t: "take ?m predictions = predictions" "take ?m (take ?m targets) = take ?m targets"
        using len by simp_all
      show ?thesis
        unfolding AccuracyMetric_update_data Let_def k t using m by (simp only: if_False)
    qed
    finally show ?thesis .
  qed
  then show ?thesis
    by (simp add: AverageMetric_update_after_reset)
qed

theorem AccuracyMetric_update_truncates_witness:
  "fst (AccuracyMetric_update [Logit 1, Logit (- 1)] [1]
          (AverageMetric_reset (AverageMetric_init True))) = Inr ()
   \<and> self_value (snd (AccuracyMetric_update [Logit 1, Logit (- 1)] [1]
          (AverageMetric_reset (AverageMetric_init True)))) = 1
   \<and> self_num_samples (snd (AccuracyMetric_update [Logit 1, Logit (- 1)] [1]
          (AverageMetric_reset (AverageMetric_init True)))) = 1"
proof -
  have f: "agreement_fraction [1] (take 1 [1]) = 1"
    by (simp add: agreement_fraction_def)
  have m: "min (length [Logit 1, Logit (- 1)]) (length [1 :: real]) = 1"
    by simp
  have h1: "length [Logit 1, Logit (- 1)] \<noteq> length [1 :: real]"
    and h2: "[Logit 1, Logit (- 1)] \<noteq> []"
    and h3: "[1 :: real] \<noteq> []"
    and h4: "take (min (length [Logit 1, Logit (- 1)]) (length [1 :: real]))
               [Logit 1, Logit (- 1)] = map Logit [1]"
    by simp_all
  obtain s where s:
      "AccuracyMetric_update [Logit 1, Logit (- 1)] [1]
         (AverageMetric_reset (AverageMetric_init True)) = (Inr (), s)"
      "self_value s = agreement_fraction [1]
         (take (min (length [Logit 1, Logit (- 1)]) (length [1 :: real])) [1])"
      "self_num_samples s = int (min (length [Logit 1, Logit (- 1)]) (length [1 :: real]))"
    using AccuracyMetric_update_truncates [OF h1 h2 h3 h4, of "AverageMetric_init True"]
    by blast
  show ?thesis
    unfolding s(1) fst_conv snd_conv s(2,3) m f by simp
qed

text \<open>
  C7, as the claim states it, fails: \<open>update\<close> on two logits and one target raises nothing
  and computes the batch value \<open>1\<close> from the first position alone.
\<close>

theorem AccuracyMetric_update_mismatch_counterexample:
  "length [Logit 1, Logit (- 1)] \<noteq> length [1 :: real]
   \<and> fst (AccuracyMetric_update [Logit 1, Logit (- 1)] [1] (AverageMetric_init True)) = Inr ()
   \<and> self_value (snd (AccuracyMetric_update [Logit 1, Logit (- 1)] [1]
        (AverageMetric_init True))) = 1"
  by (simp add: AccuracyMetric_update_def AverageMetric_update_def AverageMetric_init_def
      data_def)

text \<open>
  C10. \<open>AccuracyMetric.update\<close> with an empty \<open>logits\<close> sequence (whatever the targets,
  so also with two empty sequences) or with an empty \<open>targets\<close> sequence raises
  \<open>ZeroDivisionError\<close>: the agreement count is divided by the number of compared pairs,
  which is zero, and nothing guards against it. The metric is left as it was.
\<close>

theorem AccuracyMetric_update_empty:
  "AccuracyMetric_update [] targets self = (Inl ZeroDivisionError, self)
   \<and> AccuracyMetric_update logits [] self = (Inl ZeroDivisionError, self)"
  by (simp add: AccuracyMetric_update_def)

subsection \<open>Checkpoint persistence\<close>

lemma load_after_save:
  "load_checkpoint q (save_checkpoint c p self)
     = (Inr c, print2 ''checkpoint loaded from '' q (save_checkpoint c p self))"
  by (simp add: load_checkpoint_def save_checkpoint_def print2_def Let_def)

lemma checkpoint_dump_save_all:
  "checkpoint_dump (save_all saves self)
     = (if saves = [] then checkpoint_dump self else Some (fst (last saves)))"
  by (induction saves self rule: save_all.induct)
     (auto simp: save_checkpoint_def print2_def Let_def)

lemma load_fst:
  "fst (load_checkpoint p self)
     = (case checkpoint_dump self of None \<Rightarrow> Inl AttributeError | Some c \<Rightarrow> Inr c)"
  by (simp add: load_checkpoint_def print2_def Let_def split: option.splits)

text \<open>
  C3, as the code has it. \<open>load_checkpoint\<close> never looks at its path. For a path \<open>p\<close>
  that was never passed to \<open>save_checkpoint\<close>, on an engine that has seen the saves
  \<open>saves\<close> since its construction: if nothing was saved at all the call raises
  \<open>AttributeError\<close> (the attribute was never assigned); otherwise it returns the
  checkpoint saved last, under whatever path that was.
\<close>

theorem load_checkpoint_ignores_path:
  assumes "p \<notin> snd ` set saves"
  shows "fst (load_checkpoint p (save_all saves Engine_init))
           = (if saves = [] then Inl AttributeError else Inr (fst (last saves)))"
  by (simp add: load_fst checkpoint_dump_save_all Engine_init_def)

theorem load_checkpoint_ignores_path_witness:
  "fst (load_checkpoint ''unseen'' (save_all [] Engine_init)) = Inl AttributeError
   \<and> fst (load_checkpoint ''unseen''
        (save_all [([(''model'', PyInt 1)], ''p''), ([(''model'', PyInt 2)], ''q'')] Engine_init))
      = Inr [(''model'', PyInt 2)]"
  using load_checkpoint_ignores_path [of "''unseen''" "[]"]
    load_checkpoint_ignores_path
      [of "''unseen''" "[([(''model'', PyInt 1)], ''p''), ([(''model'', PyInt 2)], ''q'')]"]
  by simp

text \<open>
  C3, as the claim states it, fails: after one save under \<open>p\<close>, loading the path
  \<open>unseen\<close> does not fail but returns the checkpoint saved under \<open>p\<close>.
\<close>

theorem load_checkpoint_unseen_counterexample:
  "''unseen'' \<noteq> ''p''
   \<and> fst (load_checkpoint ''unseen'' (save_checkpoint [(''model'', PyInt 1)] ''p'' Engine_init))
       = Inr [(''model'', PyInt 1)]"
  by (simp add: load_after_save)

text \<open>
  C4, as the code has it. The engine keeps a single checkpoint, not one per path: right
  after \<open>save_checkpoint(c, p)\<close>, \<open>load_checkpoint\<close> of any path returns \<open>c\<close>; a later
  \<open>save_checkpoint(d, q)\<close> under any path replaces it, and \<open>load_checkpoint(p)\<close> then
  returns \<open>d\<close>.
\<close>

theorem load_checkpoint_returns_last_saved:
  "fst (load_checkpoint q (save_checkpoint c p self)) = Inr c
   \<and> fst (load_checkpoint p (save_checkpoint d q (save_checkpoint c p self))) = Inr d"
  by (simp add: load_after_save)

text \<open>
  C4, as the claim states it, fails: a save under the different path \<open>q\<close> makes
  \<open>load_checkpoint\<close> of \<open>p\<close> return the other checkpoint.
\<close>

theorem load_checkpoint_overwritten_counterexample:
  "''q'' \<noteq> ''p''
   \<and> fst (load_checkpoint ''p'' (save_checkpoint [(''model'', PyInt 2)] ''q''
           (save_checkpoint [(''model'', PyInt 1)] ''p'' Engine_init)))
       = Inr [(''model'', PyInt 2)]
   \<and> [(''model'', PyInt 2)] \<noteq> [(''model'', PyInt 1)]"
  by (simp add: load_after_save)

subsection \<open>unpack_checkpoint\<close>

lemma getitem_present:
  "k \<in> fst ` set d \<Longrightarrow> \<exists>v. getitem d k = Inr v \<and> map_of d k = Some v"
  by (auto simp: getitem_def map_of_eq_None_iff split: option.splits)

lemma unpack_body:
  assumes "{''model'', ''criterion'', ''optimizer'', ''scheduler''} \<subseteq> fst ` set checkpoint"
  shows "\<exists>m c o' s. map_of checkpoint ''model'' = Some m \<and> map_of checkpoint ''criterion'' = Some c
     \<and> map_of checkpoint ''optimizer'' = Some o' \<and> map_of checkpoint ''scheduler'' = Some s
     \<and> unpack_checkpoint_body checkpoint locals
       = Inr \<lparr> v_model = m, v_criterion = c, v_optimizer = o', v_scheduler = s \<rparr>"
proof -
  obtain m where m: "getitem checkpoint ''model'' = Inr m" "map_of checkpoint ''model'' = Some m"
    using getitem_present [of "''model''" checkpoint] assms by auto
  obtain c where c: "getitem checkpoint ''criterion'' = Inr c" "map_of checkpoint ''criterion'' = Some c"
    using getitem_present [of "''criterion''" checkpoint] assms by auto
  obtain o' where o: "getitem checkpoint ''optimizer'' = Inr o'" "map_of checkpoint ''optimizer'' = Some o'"
    using getitem_present [of "''optimizer''" checkpoint] assms by auto
  obtain s where s: "getitem checkpoint ''scheduler'' = Inr s" "map_of checkpoint ''scheduler'' = Some s"
    using getitem_present [of "''scheduler''" checkpoint] assms by auto
  show ?thesis
    by (simp add: unpack_checkpoint_body_def m c o s Let_def)
qed

text \<open>
  C9. For a checkpoint that contains the four fixed keys, \<open>unpack_checkpoint\<close> returns
  \<open>None\<close> and leaves the engine as it was; at a call site the caller's four component
  variables are after the call what they were before it. The checkpoint entries only
  reach the local names of the call.
\<close>

theorem unpack_checkpoint_no_op:
  assumes "{''model'', ''criterion'', ''optimizer'', ''scheduler''} \<subseteq> fst ` set checkpoint"
  shows "unpack_checkpoint checkpoint model criterion optimizer scheduler kwargs self
           = (Inr PyNone, self)
       \<and> call_unpack_checkpoint checkpoint caller self = (Inr PyNone, caller, self)
       \<and> unpack_checkpoint_body checkpoint locals
           = Inr \<lparr> v_model = the (map_of checkpoint ''model''),
                   v_criterion = the (map_of checkpoint ''criterion''),
                   v_optimizer = the (map_of checkpoint ''optimizer''),
                   v_scheduler = the (map_of checkpoint ''scheduler'') \<rparr>"
proof -
  have ret: "unpack_checkpoint checkpoint m c o' s k self = (Inr PyNone, self)" for m c o' s k
    using unpack_body [OF assms,
        of "\<lparr> v_model = m, v_criterion = c, v_optimizer = o', v_scheduler = s \<rparr>"]
    by (auto simp: unpack_checkpoint_def)
  have body: "unpack_checkpoint_body checkpoint locals
           = Inr \<lparr> v_model = the (map_of checkpoint ''model''),
                   v_criterion = the (map_of checkpoint ''criterion''),
                   v_optimizer = the (map_of checkpoint ''optimizer''),
                   v_scheduler = the (map_of checkpoint ''scheduler'') \<rparr>"
    using unpack_body [OF assms, of locals] by auto
  show ?thesis
    using body by (simp add: ret call_unpack_checkpoint_def)
qed

theorem unpack_checkpoint_no_op_witness:
  "pack_checkpoint (PyObj 1) (PyObj 2) (PyObj 3) PyNone [(''epoch'', PyInt 7)]
     = Inr [(''model'', PyObj 1), (''criterion'', PyObj 2), (''optimizer'', PyObj 3),
            (''scheduler'', PyNone), (''epoch'', PyInt 7)]
   \<and> call_unpack_checkpoint
      [(''model'', PyObj 1), (''criterion'', PyObj 2), (''optimizer'', PyObj 3),
       (''scheduler'', PyNone), (''epoch'', PyInt 7)]
      \<lparr> v_model = PyObj 10, v_criterion = PyObj 20, v_optimizer = PyObj 30,
        v_scheduler = PyObj 40 \<rparr>
      Engine_init
   = (Inr PyNone,
      \<lparr> v_model = PyObj 10, v_criterion = PyObj 20, v_optimizer = PyObj 30,
        v_scheduler = PyObj 40 \<rparr>,
      Engine_init)"
  using unpack_checkpoint_no_op
    [of "[(''model'', PyObj 1), (''criterion'', PyObj 2), (''optimizer'', PyObj 3),
          (''scheduler'', PyNone), (''epoch'', PyInt 7)]"]
  by (simp add: pack_checkpoint_def)

subsection \<open>init_components\<close>

lemma init_components_unset_fails:
  assumes "model_fn = None \<or> criterion_fn = None \<or> optimizer_fn = None \<or> scheduler_fn = None"
  shows "\<exists>e. fst (init_components model_fn criterion_fn optimizer_fn scheduler_fn w) = Inl e"
  using assms
  by (auto simp: init_components_def call0_def call1_def split: prod.splits sum.splits option.splits)

text \<open>
  C6. When the four factories are supplied and each returns, \<open>init_components\<close> runs
  them once each in the order \<open>model_fn()\<close>, \<open>criterion_fn()\<close>,
  \<open>optimizer_fn(model=model)\<close>, \<open>scheduler_fn(optimizer=optimizer)\<close>, each from the
  state its predecessor left, and returns the four results: the optimizer factory
  receives the value \<open>model_fn\<close> returned and the scheduler factory the value
  \<open>optimizer_fn\<close> returned. The log of the recorded factories is exactly these four
  calls in this order.
\<close>

theorem init_components_order:
  assumes "model_fn w0 = (Inr model, w1)"
    and "criterion_fn w1 = (Inr criterion, w2)"
    and "optimizer_fn model w2 = (Inr optimizer, w3)"
    and "scheduler_fn optimizer w3 = (Inr scheduler, w4)"
  shows "init_components (Some model_fn) (Some criterion_fn) (Some optimizer_fn)
           (Some scheduler_fn) w0
           = (Inr (model, criterion, optimizer, scheduler), w4)
       \<and> init_components (Some (recorded0 Call_model_fn model_fn))
           (Some (recorded0 Call_criterion_fn criterion_fn))
           (Some (recorded1 Call_optimizer_fn optimizer_fn))
           (Some (recorded1 Call_scheduler_fn scheduler_fn)) (w0, [])
         = (Inr (model, criterion, optimizer, scheduler),
            (w4, [Call_model_fn, Call_criterion_fn, Call_optimizer_fn model,
                  Call_scheduler_fn optimizer]))"
  using assms
  by (simp add: init_components_def call0_def call1_def recorded0_def recorded1_def)

text \<open>
  The example with \<open>model_fn\<close> returning 1, \<open>criterion_fn\<close> returning 2, \<open>optimizer_fn\<close>
  returning the pair of its model and a fixed 3, and \<open>scheduler_fn\<close> returning its
  optimizer: the optimizer factory is called with \<open>model = 1\<close>.
\<close>

theorem init_components_order_witness:
  "init_components (Some (recorded0 Call_model_fn (returns (PyInt 1))))
           (Some (recorded0 Call_criterion_fn (returns (PyInt 2))))
           (Some (recorded1 Call_optimizer_fn (pair_with (PyInt 3))))
           (Some (recorded1 Call_scheduler_fn returns)) ((), [])
         = (Inr (PyInt 1, PyInt 2, PyTuple [PyInt 1, PyInt 3], PyTuple [PyInt 1, PyInt 3]),
            ((), [Call_model_fn, Call_criterion_fn, Call_optimizer_fn (PyInt 1),
                  Call_scheduler_fn (PyTuple [PyInt 1, PyInt 3])]))"
  using init_components_order
    [of "returns (PyInt 1)" "()" "PyInt 1" "()" "returns (PyInt 2)" "PyInt 2" "()"
       "pair_with (PyInt 3)" "PyTuple [PyInt 1, PyInt 3]" "()" returns
       "PyTuple [PyInt 1, PyInt 3]" "()"]
  by (simp add: returns_def pair_with_def)

text \<open>
  C5, as the code has it. A null slot comes from a supplied factory that returns
  \<open>None\<close>: when \<open>model_fn\<close> returns \<open>None\<close> and the other factories return, the model slot
  of the bundle is \<open>None\<close>, \<open>optimizer_fn\<close> is still called, with \<open>model = None\<close>, and
  \<open>init_components\<close> does not fail. A factory argument left unset is not skipped: the
  call of \<open>None\<close> raises. With \<open>model_fn\<close> unset \<open>init_components\<close> raises \<open>TypeError\<close>
  before any factory is invoked, and with any of the four unset it returns no bundle.
\<close>

theorem init_components_unset_or_null:
  assumes "model_fn w0 = (Inr PyNone, w1)"
    and "criterion_fn w1 = (Inr criterion, w2)"
    and "optimizer_fn PyNone w2 = (Inr optimizer, w3)"
    and "scheduler_fn optimizer w3 = (Inr scheduler, w4)"
  shows "init_components (Some model_fn) (Some criterion_fn) (Some optimizer_fn)
           (Some scheduler_fn) w0
           = (Inr (PyNone, criterion, optimizer, scheduler), w4)
       \<and> init_components (Some (recorded0 Call_model_fn model_fn))
           (Some (recorded0 Call_criterion_fn criterion_fn))
           (Some (recorded1 Call_optimizer_fn optimizer_fn))
           (Some (recorded1 Call_scheduler_fn scheduler_fn)) (w0, [])
         = (Inr (PyNone, criterion, optimizer, scheduler),
            (w4, [Call_model_fn, Call_criterion_fn, Call_optimizer_fn PyNone,
                  Call_scheduler_fn optimizer]))
       \<and> init_components None (Some (recorded0 Call_criterion_fn criterion_fn))
           (Some (recorded1 Call_optimizer_fn optimizer_fn))
           (Some (recorded1 Call_scheduler_fn scheduler_fn)) (w0, [])
         = (Inl TypeError, (w0, []))
       \<and> init_components None f2 f3 f4 w = (Inl TypeError, w)
       \<and> (f1 = None \<or> f2 = None \<or> f3 = None \<or> f4 = None \<longrightarrow>
            (\<exists>e. fst (init_components f1 f2 f3 f4 w) = Inl e))"
proof -
  have null: "init_components (Some model_fn) (Some criterion_fn) (Some optimizer_fn)
        (Some scheduler_fn) w0 = (Inr (PyNone, criterion, optimizer, scheduler), w4)"
    using assms by (simp add: init_components_def call0_def call1_def)
  have seen: "init_components (Some (recorded0 Call_model_fn model_fn))
           (Some (recorded0 Call_criterion_fn criterion_fn))
           (Some (recorded1 Call_optimizer_fn optimizer_fn))
           (Some (recorded1 Call_scheduler_fn scheduler_fn)) (w0, [])
         = (Inr (PyNone, criterion, optimizer, scheduler),
            (w4, [Call_model_fn, Call_criterion_fn, Call_optimizer_fn PyNone,
                  Call_scheduler_fn optimizer]))"
    using assms
    by (simp add: init_components_def call0_def call1_def recorded0_def recorded1_def)
  have unset: "init_components None (Some (recorded0 Call_criterion_fn criterion_fn))
           (Some (recorded1 Call_optimizer_fn optimizer_fn))
           (Some (recorded1 Call_scheduler_fn scheduler_fn)) (w0, [])
         = (Inl TypeError, (w0, []))"
    by (simp add: init_components_def call0_def)
  have fails: "f1 = None \<or> f2 = None \<or> f3 = None \<or> f4 = None \<longrightarrow>
            (\<exists>e. fst (init_components f1 f2 f3 f4 w) = Inl e)"
    using init_components_unset_fails [of f1 f2 f3 f4 w] by blast
  have first: "init_components None f2 f3 f4 w = (Inl TypeError, w)"
    by (simp add: init_components_def call0_def)
  show ?thesis
    using null seen unset first fails by (intro conjI)
qed

theorem init_components_unset_or_null_witness:
  "init_components (Some (recorded0 Call_model_fn (returns PyNone)))
           (Some (recorded0 Call_criterion_fn (returns (PyInt 2))))
           (Some (recorded1 Call_optimizer_fn (pair_with (PyInt 3))))
           (Some (recorded1 Call_scheduler_fn returns)) ((), [])
         = (Inr (PyNone, PyInt 2, PyTuple [PyNone, PyInt 3], PyTuple [PyNone, PyInt 3]),
            ((), [Call_model_fn, Call_criterion_fn, Call_optimizer_fn PyNone,
                  Call_scheduler_fn (PyTuple [PyNone, PyInt 3])]))"
  using init_components_unset_or_null
    [of "returns PyNone" "()" "()" "returns (PyInt 2)" "PyInt 2" "()"
       "pair_with (PyInt 3)" "PyTuple [PyNone, PyInt 3]" "()" returns
       "PyTuple [PyNone, PyInt 3]" "()",
     where ?f1.0 = None and ?f2.0 = None and ?f3.0 = None and ?f4.0 = None and w = "()"]
  by (simp add: returns_def pair_with_def)

text \<open>
  C5, as the claim states it, fails: with \<open>model_fn\<close> unset and the other three factories
  supplied, \<open>init_components\<close> raises \<open>TypeError\<close> and the log is empty, so
  \<open>optimizer_fn\<close> is never invoked.
\<close>

theorem init_components_unset_counterexample:
  "init_components None
           (Some (recorded0 Call_criterion_fn (returns (PyInt 2))))
           (Some (recorded1 Call_optimizer_fn (pair_with (PyInt 3))))
           (Some (recorded1 Call_scheduler_fn returns)) ((), [])
         = (Inl TypeError, ((), []))"
  by (simp add: init_components_def call0_def)

end
